theory Spec2Isabelle
  imports Main "HOL-Library.Word"
begin

section \<open>Errors (pkg/job/utils.go)\<close>

text \<open>
  The error values the core produces. \<open>ValidationError\<close> and \<open>JobNotFoundError\<close> are the
  struct types of \<^verbatim>\<open>utils.go\<close>; \<open>ErrorString\<close> stands for the errors built with
  \<^verbatim>\<open>fmt.Errorf\<close>, which carry their formatted message only.
\<close>

datatype error =
    ValidationError string
  | JobNotFoundError string
  | ErrorString string

fun Error_msg :: "error \<Rightarrow> string" where
  "Error_msg (ValidationError m) = m"
| "Error_msg (JobNotFoundError jobID) = ''job not found: '' @ jobID"
| "Error_msg (ErrorString m) = m"

definition NewValidationError :: "string \<Rightarrow> error" where
  "NewValidationError message = ValidationError message"

definition NewJobNotFoundError :: "string \<Rightarrow> error" where
  "NewJobNotFoundError jobID = JobNotFoundError jobID"

fun IsValidationError :: "error \<Rightarrow> bool" where
  "IsValidationError (ValidationError _) = True"
| "IsValidationError _ = False"

fun IsJobNotFoundError :: "error \<Rightarrow> bool" where
  "IsJobNotFoundError (JobNotFoundError _) = True"
| "IsJobNotFoundError _ = False"

section \<open>The data model (pkg/job/types.go)\<close>

text \<open>
  A \<^verbatim>\<open>time.Time\<close> is kept abstract: \<open>instant\<close> is the position on the time line that
  \<^verbatim>\<open>Before\<close> and \<^verbatim>\<open>After\<close> compare, \<open>repr\<close> stands for the rest of the
  representation (location, monotonic reading), which only \<^verbatim>\<open>==\<close> looks at.
  A \<^verbatim>\<open>time.Duration\<close> is a number of nanoseconds.
\<close>

datatype time = Time (instant: int) (repr: nat)

type_synonym Duration = int

definition Before :: "time \<Rightarrow> time \<Rightarrow> bool" where
  "Before t u = (instant t < instant u)"

definition After :: "time \<Rightarrow> time \<Rightarrow> bool" where
  "After t u = (instant t > instant u)"

definition Sub :: "time \<Rightarrow> time \<Rightarrow> Duration" where
  "Sub t u = instant t - instant u"

definition Minute :: Duration where
  "Minute = 60 * 1000000000"

text \<open>
  \<^verbatim>\<open>JobType\<close> and \<^verbatim>\<open>JobStatus\<close> are string types in the source, so a job can
  carry any string in these fields; the declared constants are particular strings.
\<close>

type_synonym JobType = string
type_synonym JobStatus = string

definition JobTypeCommand :: JobType where "JobTypeCommand = ''command''"
definition JobTypeScript :: JobType where "JobTypeScript = ''script''"
definition JobTypeHTTP :: JobType where "JobTypeHTTP = ''http''"
definition JobTypeFile :: JobType where "JobTypeFile = ''file''"

definition JobStatusPending :: JobStatus where "JobStatusPending = ''pending''"
definition JobStatusQueued :: JobStatus where "JobStatusQueued = ''queued''"
definition JobStatusRunning :: JobStatus where "JobStatusRunning = ''running''"
definition JobStatusCompleted :: JobStatus where "JobStatusCompleted = ''completed''"
definition JobStatusFailed :: JobStatus where "JobStatusFailed = ''failed''"
definition JobStatusCancelled :: JobStatus where "JobStatusCancelled = ''cancelled''"
definition JobStatusRetrying :: JobStatus where "JobStatusRetrying = ''retrying''"

lemmas JobType_defs =
  JobTypeCommand_def JobTypeScript_def JobTypeHTTP_def JobTypeFile_def

lemmas JobStatus_defs =
  JobStatusPending_def JobStatusQueued_def JobStatusRunning_def JobStatusCompleted_def
  JobStatusFailed_def JobStatusCancelled_def JobStatusRetrying_def

text \<open>
  Go copies a struct field by field. A slice field is a header (backing array, offset,
  length) and a map field is a reference, so a copied struct shares the backing array and
  the map with the original. The model keeps that: \<open>Tags\<close> is a slice header and
  \<open>Environment\<close> a map reference, and their contents live in a heap.
  \<open>StartedAt\<close> and \<open>CompletedAt\<close> are pointers to times that the source only ever
  replaces and never writes through; they are modelled as optional values, \<open>None\<close>
  being \<^verbatim>\<open>nil\<close>.
\<close>

type_synonym addr = nat

datatype slice = NilSlice | Slice (base: addr) (offset: nat) (len: nat)

datatype mapref = NilMap | MapRef addr

record heap =
  arrays :: "addr \<rightharpoonup> string list"
  maps :: "addr \<rightharpoonup> (string \<rightharpoonup> string)"

record Job =
  ID :: string
  Type :: JobType
  Command :: string
  Script :: string
  URL :: string
  Method :: string
  FilePath :: string
  Timeout :: Duration
  Retries :: int
  Priority :: int
  Tags :: slice
  Environment :: mapref
  WorkerID :: string
  Status :: JobStatus
  CreatedAt :: time
  StartedAt :: "time option"
  CompletedAt :: "time option"
  Output :: string
  Error :: string
  ExitCode :: int

text \<open>The zero value \<^verbatim>\<open>Job{}\<close>; the zero \<^verbatim>\<open>time.Time\<close> is written \<open>Time 0 0\<close>.\<close>

definition zeroJob :: Job where
  "zeroJob = \<lparr> ID = [], Type = [], Command = [], Script = [], URL = [], Method = [],
     FilePath = [], Timeout = 0, Retries = 0, Priority = 0, Tags = NilSlice,
     Environment = NilMap, WorkerID = [], Status = [], CreatedAt = Time 0 0,
     StartedAt = None, CompletedAt = None, Output = [], Error = [], ExitCode = 0 \<rparr>"

section \<open>The status machine (pkg/job/utils.go)\<close>

definition CanTransitionTo :: "Job \<Rightarrow> JobStatus \<Rightarrow> bool" where
  "CanTransitionTo j newStatus =
     (if Status j = JobStatusPending then
        newStatus = JobStatusQueued \<or> newStatus = JobStatusCancelled
      else if Status j = JobStatusQueued then
        newStatus = JobStatusRunning \<or> newStatus = JobStatusCancelled
      else if Status j = JobStatusRunning then
        newStatus = JobStatusCompleted \<or> newStatus = JobStatusFailed \<or>
        newStatus = JobStatusCancelled \<or> newStatus = JobStatusRetrying
      else if Status j = JobStatusRetrying then
        newStatus = JobStatusQueued \<or> newStatus = JobStatusFailed \<or>
        newStatus = JobStatusCancelled
      else if Status j = JobStatusCompleted \<or> Status j = JobStatusFailed \<or>
              Status j = JobStatusCancelled then False
      else False)"

text \<open>
  \<open>UpdateStatus\<close> has a pointer receiver: the model returns the job as the call leaves
  it, next to the error. \<open>now\<close> is the reading of \<^verbatim>\<open>time.Now()\<close>.
\<close>

definition UpdateStatus :: "time \<Rightarrow> Job \<Rightarrow> JobStatus \<Rightarrow> error option \<times> Job" where
  "UpdateStatus now j newStatus =
     (if \<not> CanTransitionTo j newStatus then
        (Some (NewValidationError
           (''cannot transition from '' @ Status j @ '' to '' @ newStatus)), j)
      else
        let j1 = j\<lparr>Status := newStatus\<rparr>;
            j2 = (if newStatus = JobStatusRunning then
                    (if StartedAt j1 = None then j1\<lparr>StartedAt := Some now\<rparr> else j1)
                  else if newStatus = JobStatusCompleted \<or> newStatus = JobStatusFailed \<or>
                          newStatus = JobStatusCancelled then
                    (if CompletedAt j1 = None then j1\<lparr>CompletedAt := Some now\<rparr> else j1)
                  else j1)
        in (None, j2))"

definition IsTerminal :: "Job \<Rightarrow> bool" where
  "IsTerminal j =
     (Status j = JobStatusCompleted \<or> Status j = JobStatusFailed \<or>
      Status j = JobStatusCancelled)"

text \<open>
  The transition table as the specification gives it (section 4.1): the list of allowed
  edges, and the three terminal statuses. They are written from the specification's
  table, to be compared with \<open>CanTransitionTo\<close>.
\<close>

definition transition_table :: "(JobStatus \<times> JobStatus) list" where
  "transition_table =
     [(''pending'', ''queued''), (''pending'', ''cancelled''),
      (''queued'', ''running''), (''queued'', ''cancelled''),
      (''running'', ''completed''), (''running'', ''failed''),
      (''running'', ''cancelled''), (''running'', ''retrying''),
      (''retrying'', ''queued''), (''retrying'', ''failed''),
      (''retrying'', ''cancelled'')]"

definition terminal_status :: "JobStatus \<Rightarrow> bool" where
  "terminal_status s = (s = ''completed'' \<or> s = ''failed'' \<or> s = ''cancelled'')"

section \<open>Requests: validation and conversion (pkg/job/types.go)\<close>

record JobResult =
  JobID :: string
  resStatus :: JobStatus
  resOutput :: string
  resError :: string
  resExitCode :: int
  resStartedAt :: time
  resCompletedAt :: time
  resDuration :: Duration

text \<open>
  The fields of a \<^verbatim>\<open>JobRequest\<close> carry the prefix \<open>req\<close>, since a record field is a
  constant of its own and \<^verbatim>\<open>Job\<close> has fields of the same names.
\<close>

record JobRequest =
  reqType :: JobType
  reqCommand :: string
  reqScript :: string
  reqURL :: string
  reqMethod :: string
  reqFilePath :: string
  reqTimeout :: string
  reqRetries :: int
  reqPriority :: int
  reqTags :: slice
  reqEnvironment :: mapref

definition zeroJobRequest :: JobRequest where
  "zeroJobRequest = \<lparr> reqType = [], reqCommand = [], reqScript = [], reqURL = [],
     reqMethod = [], reqFilePath = [], reqTimeout = [], reqRetries = 0, reqPriority = 0,
     reqTags = NilSlice, reqEnvironment = NilMap \<rparr>"

text \<open>
  \<open>Validate\<close> has a pointer receiver and writes the default method back into the
  request: the model returns the request as the call leaves it.
\<close>

definition Validate :: "JobRequest \<Rightarrow> error option \<times> JobRequest" where
  "Validate jr =
     (if reqType jr = [] then
        (Some (NewValidationError ''job type is required''), jr)
      else if reqType jr = JobTypeCommand then
        (if reqCommand jr = [] then
           (Some (NewValidationError ''command is required for command jobs''), jr)
         else (None, jr))
      else if reqType jr = JobTypeScript then
        (if reqScript jr = [] then
           (Some (NewValidationError ''script is required for script jobs''), jr)
         else (None, jr))
      else if reqType jr = JobTypeHTTP then
        (if reqURL jr = [] then
           (Some (NewValidationError ''url is required for HTTP jobs''), jr)
         else if reqMethod jr = [] then (None, jr\<lparr>reqMethod := ''GET''\<rparr>)
         else (None, jr))
      else if reqType jr = JobTypeFile then
        (if reqFilePath jr = [] then
           (Some (NewValidationError ''file_path is required for file jobs''), jr)
         else (None, jr))
      else (Some (NewValidationError (''unsupported job type: '' @ reqType jr)), jr))"

subsection \<open>Job identifiers\<close>

text \<open>
  \<^verbatim>\<open>fmt.Sprintf("job-%d-%s", timestamp, randomHex)\<close>: the decimal form of the Unix
  time and the lower-case hexadecimal form of four random bytes. The clock reading and
  the bytes that \<^verbatim>\<open>rand.Read\<close> leaves in the buffer are arguments of the model.
\<close>

definition digit_char :: "nat \<Rightarrow> char" where
  "digit_char d = ''0123456789'' ! d"

fun nat_decimal :: "nat \<Rightarrow> string" where
  "nat_decimal n =
     (if n < 10 then [digit_char n] else nat_decimal (n div 10) @ [digit_char (n mod 10)])"

declare nat_decimal.simps [simp del]

definition format_d :: "int \<Rightarrow> string" where
  "format_d i = (if i < 0 then CHR ''-'' # nat_decimal (nat (- i)) else nat_decimal (nat i))"

definition hex_digit :: "nat \<Rightarrow> char" where
  "hex_digit d = ''0123456789abcdef'' ! d"

definition EncodeToString :: "8 word list \<Rightarrow> string" where
  "EncodeToString bs =
     concat (map (\<lambda>b. [hex_digit (unat (drop_bit 4 b)), hex_digit (unat (take_bit 4 b))]) bs)"

type_synonym random4 = "8 word \<times> 8 word \<times> 8 word \<times> 8 word"

definition GenerateJobID :: "int \<Rightarrow> random4 \<Rightarrow> string" where
  "GenerateJobID timestamp randomBytes =
     (case randomBytes of (b0, b1, b2, b3) \<Rightarrow>
        ''job-'' @ format_d timestamp @ ''-'' @ EncodeToString [b0, b1, b2, b3])"

subsection \<open>Conversion\<close>

text \<open>
  \<^verbatim>\<open>time.ParseDuration\<close> belongs to the Go library: it is the argument
  \<open>ParseDuration\<close>, \<open>None\<close> when the library returns an error. \<open>timestamp\<close> and
  \<open>randomBytes\<close> feed \<open>GenerateJobID\<close>, \<open>now\<close> is the reading of
  \<^verbatim>\<open>time.Now()\<close> for \<open>CreatedAt\<close>. The fields the struct literal leaves out
  take their zero values. \<open>Tags\<close> and \<open>Environment\<close> are copied as references.
\<close>

definition ToJob ::
  "(string \<Rightarrow> Duration option) \<Rightarrow> int \<Rightarrow> random4 \<Rightarrow> time \<Rightarrow> JobRequest \<Rightarrow>
     (error + Job) \<times> JobRequest" where
  "ToJob ParseDuration timestamp randomBytes now jr =
     (case Validate jr of
        (Some err, jr1) \<Rightarrow> (Inl err, jr1)
      | (None, jr1) \<Rightarrow>
          let job = \<lparr> ID = GenerateJobID timestamp randomBytes,
                      Type = reqType jr1,
                      Command = reqCommand jr1,
                      Script = reqScript jr1,
                      URL = reqURL jr1,
                      Method = reqMethod jr1,
                      FilePath = reqFilePath jr1,
                      Timeout = 0,
                      Retries = reqRetries jr1,
                      Priority = reqPriority jr1,
                      Tags = reqTags jr1,
                      Environment = reqEnvironment jr1,
                      WorkerID = [],
                      Status = JobStatusPending,
                      CreatedAt = now,
                      StartedAt = None, CompletedAt = None,
                      Output = [], Error = [], ExitCode = 0 \<rparr>
          in
            (case (if reqTimeout jr1 \<noteq> [] then
                     (case ParseDuration (reqTimeout jr1) of
                        None \<Rightarrow>
                          Inl (NewValidationError
                                 (''invalid timeout format: '' @ reqTimeout jr1))
                      | Some timeout \<Rightarrow> Inr (job\<lparr>Timeout := timeout\<rparr>))
                   else Inr (job\<lparr>Timeout := 5 * Minute\<rparr>)) of
               Inl err \<Rightarrow> (Inl err, jr1)
             | Inr job1 \<Rightarrow>
                 (Inr (if Priority job1 = 0 then job1\<lparr>Priority := 1\<rparr> else job1), jr1)))"

text \<open>
  The validity condition in the specification's words (section 4.2): the type is empty or
  not one of the four known types, or the field the type requires is empty.
\<close>

definition known_type :: "JobType \<Rightarrow> bool" where
  "known_type t = (t = ''command'' \<or> t = ''script'' \<or> t = ''http'' \<or> t = ''file'')"

definition required_field_empty :: "JobRequest \<Rightarrow> bool" where
  "required_field_empty jr =
     ((reqType jr = ''command'' \<and> reqCommand jr = []) \<or>
      (reqType jr = ''script'' \<and> reqScript jr = []) \<or>
      (reqType jr = ''http'' \<and> reqURL jr = []) \<or>
      (reqType jr = ''file'' \<and> reqFilePath jr = []))"

definition invalid_request :: "JobRequest \<Rightarrow> bool" where
  "invalid_request jr =
     (reqType jr = [] \<or> \<not> known_type (reqType jr) \<or> required_field_empty jr)"

section \<open>The in-memory store (internal/scheduler/memory_store.go)\<close>

text \<open>
  The store keeps pointers to copies that its own methods allocate and never hand out, so
  no caller holds a pointer into the map: the map is modelled as holding the job structs
  themselves. Every method runs under the store's lock from its first statement to its
  last, so a method is one atomic step from a store to a store. A copy
  \<^verbatim>\<open>jobCopy := *j\<close> copies the struct, that is the record: slice headers and map
  references included, their contents not.
\<close>

record MemoryStore =
  jobs :: "string \<rightharpoonup> Job"

definition NewMemoryStore :: MemoryStore where
  "NewMemoryStore = \<lparr> jobs = Map.empty \<rparr>"

definition Create :: "MemoryStore \<Rightarrow> Job \<Rightarrow> error option \<times> MemoryStore" where
  "Create s j =
     (if jobs s (ID j) \<noteq> None then
        (Some (NewValidationError (''job already exists: '' @ ID j)), s)
      else
        let jobCopy = j in (None, s\<lparr>jobs := (jobs s)(ID j \<mapsto> jobCopy)\<rparr>))"

definition Get :: "MemoryStore \<Rightarrow> string \<Rightarrow> error + Job" where
  "Get s jobID =
     (case jobs s jobID of
        None \<Rightarrow> Inl (NewJobNotFoundError jobID)
      | Some j \<Rightarrow> let jobCopy = j in Inr jobCopy)"

definition Update :: "MemoryStore \<Rightarrow> Job \<Rightarrow> error option \<times> MemoryStore" where
  "Update s j =
     (if jobs s (ID j) = None then (Some (NewJobNotFoundError (ID j)), s)
      else
        let jobCopy = j in (None, s\<lparr>jobs := (jobs s)(ID j \<mapsto> jobCopy)\<rparr>))"

definition Delete :: "MemoryStore \<Rightarrow> string \<Rightarrow> error option \<times> MemoryStore" where
  "Delete s jobID =
     (if jobs s jobID = None then (Some (NewJobNotFoundError jobID), s)
      else (None, s\<lparr>jobs := (jobs s)(jobID := None)\<rparr>))"

text \<open>
  The store's \<open>UpdateStatus\<close> calls the job's \<open>UpdateStatus\<close> through the pointer held in
  the map, so the stored job is whatever that call leaves.
\<close>

definition MemoryStore_UpdateStatus ::
  "time \<Rightarrow> MemoryStore \<Rightarrow> string \<Rightarrow> JobStatus \<Rightarrow> error option \<times> MemoryStore" where
  "MemoryStore_UpdateStatus now s jobID status =
     (case jobs s jobID of
        None \<Rightarrow> (Some (NewJobNotFoundError jobID), s)
      | Some j \<Rightarrow>
          (case UpdateStatus now j status of
             (Some err, j') \<Rightarrow> (Some err, s\<lparr>jobs := (jobs s)(jobID \<mapsto> j')\<rparr>)
           | (None, j') \<Rightarrow> (None, s\<lparr>jobs := (jobs s)(jobID \<mapsto> j')\<rparr>)))"

subsection \<open>Filters\<close>

text \<open>
  A value of type \<^verbatim>\<open>interface{}\<close>: \<^verbatim>\<open>nil\<close>, an \<^verbatim>\<open>int\<close>, a
  \<^verbatim>\<open>string\<close>, a \<^verbatim>\<open>time.Time\<close>, a \<^verbatim>\<open>[]interface{}\<close>, or a value of
  any other dynamic type (\<open>VOther\<close>, with a tag telling such values apart; a
  \<^verbatim>\<open>float64\<close> or a \<^verbatim>\<open>job.JobStatus\<close> is one). The left operand of every
  \<^verbatim>\<open>==\<close> in \<open>matchesFilter\<close> is \<^verbatim>\<open>nil\<close>, an int, a string or a time, so the
  comparison never panics and holds exactly when both operands have the same dynamic
  type and equal values: equality of the datatype.
\<close>

datatype val = VNil | VInt int | VString string | VTime time | VSlice "val list" | VOther nat

record Filter =
  Field :: string
  Operator :: string
  Value :: val

text \<open>Go compares strings byte by byte.\<close>

fun string_less :: "string \<Rightarrow> string \<Rightarrow> bool" where
  "string_less [] [] = False"
| "string_less [] (y # ys) = True"
| "string_less (x # xs) [] = False"
| "string_less (x # xs) (y # ys) =
     ((of_char x :: nat) < of_char y \<or> (x = y \<and> string_less xs ys))"

fun compareValues :: "val \<Rightarrow> val \<Rightarrow> int" where
  "compareValues (VInt va) (VInt vb) = (if va < vb then - 1 else if va > vb then 1 else 0)"
| "compareValues (VString va) (VString vb) =
     (if string_less va vb then - 1 else if string_less vb va then 1 else 0)"
| "compareValues (VTime va) (VTime vb) =
     (if Before va vb then - 1 else if After va vb then 1 else 0)"
| "compareValues _ _ = 0"

definition toLowerCase :: "char \<Rightarrow> char" where
  "toLowerCase b =
     (if (65 :: nat) \<le> of_char b \<and> of_char b \<le> (90 :: nat)
      then char_of (of_char b + (32 :: nat)) else b)"

text \<open>
  The inner loop of \<open>findSubstring\<close> from index \<open>j\<close> on: the value of \<^verbatim>\<open>match\<close>
  when the loop ends.
\<close>

function match_from :: "string \<Rightarrow> string \<Rightarrow> nat \<Rightarrow> nat \<Rightarrow> bool" where
  "match_from str substr i j =
     (if j < length substr then
        (if toLowerCase (str ! (i + j)) \<noteq> toLowerCase (substr ! j) then False
         else match_from str substr i (j + 1))
      else True)"
  by pat_completeness auto
termination
  by (relation "measure (\<lambda>(str, substr, i, j). length substr - j)") auto

declare match_from.simps [simp del]

text \<open>
  The outer loop from index \<open>i\<close> on. Its bound \<^verbatim>\<open>len(str)-len(substr)\<close> is a signed
  integer and may be negative; an index it admits keeps \<open>i + j\<close> inside \<open>str\<close>.
\<close>

function findSubstring_from :: "string \<Rightarrow> string \<Rightarrow> nat \<Rightarrow> bool" where
  "findSubstring_from str substr i =
     (if int i \<le> int (length str) - int (length substr) then
        (if match_from str substr i 0 then True else findSubstring_from str substr (i + 1))
      else False)"
  by pat_completeness auto
termination
  by (relation "measure (\<lambda>(str, substr, i). Suc (length str) - i)") auto

declare findSubstring_from.simps [simp del]

definition findSubstring :: "string \<Rightarrow> string \<Rightarrow> bool" where
  "findSubstring str substr = findSubstring_from str substr 0"

definition contains :: "string \<Rightarrow> string \<Rightarrow> bool" where
  "contains str substr =
     (length str \<ge> length substr \<and>
      (str = substr \<or> (length substr > 0 \<and> findSubstring str substr)))"

text \<open>
  The first switch of \<open>matchesFilter\<close>: the value of the field the filter names,
  \<open>None\<close> where the switch returns false for an unknown field.
\<close>

definition fieldValue :: "Job \<Rightarrow> string \<Rightarrow> val option" where
  "fieldValue j field =
     (if field = ''id'' then Some (VString (ID j))
      else if field = ''type'' then Some (VString (Type j))
      else if field = ''status'' then Some (VString (Status j))
      else if field = ''worker_id'' then Some (VString (WorkerID j))
      else if field = ''priority'' then Some (VInt (Priority j))
      else if field = ''created_at'' then Some (VTime (CreatedAt j))
      else if field = ''started_at'' then
        (case StartedAt j of Some t \<Rightarrow> Some (VTime t) | None \<Rightarrow> Some VNil)
      else if field = ''completed_at'' then
        (case CompletedAt j of Some t \<Rightarrow> Some (VTime t) | None \<Rightarrow> Some VNil)
      else None)"

fun in_slice :: "val \<Rightarrow> val list \<Rightarrow> bool" where
  "in_slice fv [] = False"
| "in_slice fv (v # vs) = (if fv = v then True else in_slice fv vs)"

definition matchesFilter :: "Job \<Rightarrow> Filter \<Rightarrow> bool" where
  "matchesFilter j flt =
     (case fieldValue j (Field flt) of
        None \<Rightarrow> False
      | Some fv \<Rightarrow>
          if Operator flt = ''eq'' then fv = Value flt
          else if Operator flt = ''ne'' then fv \<noteq> Value flt
          else if Operator flt = ''gt'' then compareValues fv (Value flt) > 0
          else if Operator flt = ''lt'' then compareValues fv (Value flt) < 0
          else if Operator flt = ''gte'' then compareValues fv (Value flt) \<ge> 0
          else if Operator flt = ''lte'' then compareValues fv (Value flt) \<le> 0
          else if Operator flt = ''in'' then
            (case Value flt of VSlice vs \<Rightarrow> in_slice fv vs | _ \<Rightarrow> False)
          else if Operator flt = ''contains'' then
            (case fv of
               VString str \<Rightarrow>
                 (case Value flt of VString substr \<Rightarrow> contains str substr | _ \<Rightarrow> False)
             | _ \<Rightarrow> False)
          else False)"

fun matchesFilters :: "Job \<Rightarrow> Filter list \<Rightarrow> bool" where
  "matchesFilters j [] = True"
| "matchesFilters j (flt # filters) =
     (if \<not> matchesFilter j flt then False else matchesFilters j filters)"

text \<open>
  \<open>List\<close> ranges over the map, in an order Go leaves unspecified: \<open>order\<close> is the
  sequence in which the loop visits the keys. The loop appends a copy of each matching
  job.
\<close>

fun List_loop :: "(string \<rightharpoonup> Job) \<Rightarrow> Filter list \<Rightarrow> string list \<Rightarrow> Job list \<Rightarrow> Job list" where
  "List_loop m filters [] result = result"
| "List_loop m filters (k # ks) result =
     (case m k of
        None \<Rightarrow> List_loop m filters ks result
      | Some j \<Rightarrow>
          if matchesFilters j filters
          then (let jobCopy = j in List_loop m filters ks (result @ [jobCopy]))
          else List_loop m filters ks result)"

definition List :: "string list \<Rightarrow> MemoryStore \<Rightarrow> Filter list \<Rightarrow> Job list" where
  "List order s filters = List_loop (jobs s) filters order []"

subsection \<open>What a caller can do with the reference fields\<close>

text \<open>
  The Go operations on a slice and a map held in a job: reading the elements a slice
  header gives access to, assigning to an element (\<^verbatim>\<open>j.Tags[i] = v\<close>, which
  panics outside the length), reading a map, and assigning to a key
  (\<^verbatim>\<open>j.Environment[k] = v\<close>, which panics on a nil map). \<open>None\<close> is the panic,
  or a header that points outside the heap.
\<close>

definition slice_elems :: "heap \<Rightarrow> slice \<Rightarrow> string list option" where
  "slice_elems h s =
     (case s of
        NilSlice \<Rightarrow> Some []
      | Slice a off n \<Rightarrow>
          (case arrays h a of
             None \<Rightarrow> None
           | Some xs \<Rightarrow> if off + n \<le> length xs then Some (take n (drop off xs)) else None))"

definition slice_assign :: "heap \<Rightarrow> slice \<Rightarrow> nat \<Rightarrow> string \<Rightarrow> heap option" where
  "slice_assign h s i v =
     (case s of
        NilSlice \<Rightarrow> None
      | Slice a off n \<Rightarrow>
          (case arrays h a of
             None \<Rightarrow> None
           | Some xs \<Rightarrow>
               if i < n \<and> off + n \<le> length xs
               then Some (h\<lparr>arrays := (arrays h)(a \<mapsto> xs[off + i := v])\<rparr>)
               else None))"

definition map_elems :: "heap \<Rightarrow> mapref \<Rightarrow> (string \<rightharpoonup> string) option" where
  "map_elems h m =
     (case m of NilMap \<Rightarrow> Some Map.empty | MapRef a \<Rightarrow> maps h a)"

definition map_assign :: "heap \<Rightarrow> mapref \<Rightarrow> string \<Rightarrow> string \<Rightarrow> heap option" where
  "map_assign h m k v =
     (case m of
        NilMap \<Rightarrow> None
      | MapRef a \<Rightarrow>
          (case maps h a of
             None \<Rightarrow> None
           | Some kv \<Rightarrow> Some (h\<lparr>maps := (maps h)(a \<mapsto> kv(k \<mapsto> v))\<rparr>)))"

text \<open>
  Case-insensitive occurrence in the specification's words: \<open>substr\<close> occurs in \<open>str\<close>
  when some stretch of \<open>str\<close> agrees with it letter by letter, two bytes agreeing when
  they are equal or are the upper-case and lower-case form of one ASCII letter.
\<close>

definition ascii_upper :: "char \<Rightarrow> bool" where
  "ascii_upper c = ((65 :: nat) \<le> of_char c \<and> of_char c \<le> (90 :: nat))"

definition same_letter :: "char \<Rightarrow> char \<Rightarrow> bool" where
  "same_letter a b =
     (a = b \<or> (ascii_upper a \<and> (of_char b :: nat) = of_char a + 32) \<or>
      (ascii_upper b \<and> (of_char a :: nat) = of_char b + 32))"

definition occurs_ci :: "string \<Rightarrow> string \<Rightarrow> bool" where
  "occurs_ci substr str =
     (\<exists>pre mid post. str = pre @ mid @ post \<and> list_all2 same_letter mid substr)"

text \<open>
  The same occurrence by position: \<open>substr\<close> lies in \<open>str\<close> at index \<open>i\<close>.
\<close>

definition match_at :: "string \<Rightarrow> string \<Rightarrow> nat \<Rightarrow> bool" where
  "match_at str substr i =
     (i + length substr \<le> length str \<and>
      (\<forall>k < length substr. same_letter (str ! (i + k)) (substr ! k)))"

section \<open>Properties of the status machine\<close>

lemma CanTransitionTo_table:
  "CanTransitionTo j new \<longleftrightarrow> (Status j, new) \<in> set transition_table"
  by (simp add: CanTransitionTo_def transition_table_def JobStatus_defs)

lemma terminal_no_edge:
  "terminal_status (Status j) \<Longrightarrow> \<not> CanTransitionTo j new"
  by (auto simp: CanTransitionTo_def terminal_status_def JobStatus_defs)

text \<open>
  Claim C1. \<open>UpdateStatus\<close> returns a validation error exactly when the edge from the
  current status to the new one is not in the transition table; every transition from a
  terminal status is rejected; a rejected call leaves the job as it was (so its
  \<open>Status\<close>, \<open>StartedAt\<close> and \<open>CompletedAt\<close> are unchanged); an accepted call sets the
  status, changes \<open>StartedAt\<close> only when the new status is running and it was unset
  (then to the current time), and changes \<open>CompletedAt\<close> only when the new status is
  terminal and it was unset (then to the current time).
\<close>

theorem UpdateStatus_transition_table:
  "(case UpdateStatus now j new of (err, j') \<Rightarrow>
      ((\<exists>m. err = Some (ValidationError m)) \<longleftrightarrow> (Status j, new) \<notin> set transition_table) \<and>
      (err = None \<longleftrightarrow> (Status j, new) \<in> set transition_table) \<and>
      (terminal_status (Status j) \<longrightarrow> err \<noteq> None) \<and>
      (err \<noteq> None \<longrightarrow>
         j' = j \<and> Status j' = Status j \<and> StartedAt j' = StartedAt j \<and>
         CompletedAt j' = CompletedAt j) \<and>
      (err = None \<longrightarrow>
         Status j' = new \<and>
         (StartedAt j' \<noteq> StartedAt j \<longrightarrow>
            new = JobStatusRunning \<and> StartedAt j = None \<and> StartedAt j' = Some now) \<and>
         (new = JobStatusRunning \<and> StartedAt j = None \<longrightarrow> StartedAt j' = Some now) \<and>
         (CompletedAt j' \<noteq> CompletedAt j \<longrightarrow>
            terminal_status new \<and> CompletedAt j = None \<and> CompletedAt j' = Some now) \<and>
         (terminal_status new \<and> CompletedAt j = None \<longrightarrow> CompletedAt j' = Some now)))"
proof (cases "CanTransitionTo j new")
  case False
  then have "UpdateStatus now j new =
      (Some (ValidationError (''cannot transition from '' @ Status j @ '' to '' @ new)), j)"
    by (simp add: UpdateStatus_def NewValidationError_def)
  moreover from False have "(Status j, new) \<notin> set transition_table"
    by (simp add: CanTransitionTo_table)
  ultimately show ?thesis by simp
next
  case True
  then have edge: "(Status j, new) \<in> set transition_table"
    by (simp add: CanTransitionTo_table)
  from True have nonterm: "\<not> terminal_status (Status j)"
    using terminal_no_edge by blast
  obtain j' where res: "UpdateStatus now j new = (None, j')"
    using True by (simp add: UpdateStatus_def Let_def)
  have st: "Status j' = new"
    using res True by (auto simp: UpdateStatus_def Let_def split: if_splits)
  have sa: "StartedAt j' =
      (if new = JobStatusRunning \<and> StartedAt j = None then Some now else StartedAt j)"
    using res True by (auto simp: UpdateStatus_def Let_def JobStatus_defs split: if_splits)
  have ca: "CompletedAt j' =
      (if terminal_status new \<and> CompletedAt j = None then Some now else CompletedAt j)"
    using res True
    by (auto simp: UpdateStatus_def Let_def JobStatus_defs terminal_status_def
        split: if_splits)
  show ?thesis
    using res edge nonterm st sa ca by (simp split: if_splits)
qed

theorem UpdateStatus_transition_table_witness:
  "UpdateStatus (Time 7 0) (zeroJob\<lparr>ID := ''test-job'', Status := ''queued''\<rparr>) ''running'' =
     (None, zeroJob\<lparr>ID := ''test-job'', Status := ''running'', StartedAt := Some (Time 7 0)\<rparr>) \<and>
   (''queued'', ''running'') \<in> set transition_table \<and>
   (\<exists>m. fst (UpdateStatus (Time 9 0)
       (zeroJob\<lparr>ID := ''test-job'', Status := ''running'', StartedAt := Some (Time 7 0)\<rparr>)
       ''running'') = Some (ValidationError m)) \<and>
   (''running'', ''running'') \<notin> set transition_table"
  using UpdateStatus_transition_table [where now = "Time 7 0"
      and j = "zeroJob\<lparr>ID := ''test-job'', Status := ''queued''\<rparr>" and new = "''running''"]
    UpdateStatus_transition_table [where now = "Time 9 0"
      and j = "zeroJob\<lparr>ID := ''test-job'', Status := ''running'', StartedAt := Some (Time 7 0)\<rparr>"
      and new = "''running''"]
  by (simp add: UpdateStatus_def CanTransitionTo_def NewValidationError_def zeroJob_def
      transition_table_def JobStatus_defs Let_def)

section \<open>Properties of validation and conversion\<close>

lemma Validate_error_iff:
  "(\<exists>m. fst (Validate jr) = Some (ValidationError m)) \<longleftrightarrow> invalid_request jr"
  by (auto simp: Validate_def invalid_request_def known_type_def required_field_empty_def
      NewValidationError_def JobType_defs)

lemma Validate_ok_iff:
  "fst (Validate jr) = None \<longleftrightarrow> \<not> invalid_request jr"
  by (auto simp: Validate_def invalid_request_def known_type_def required_field_empty_def
      NewValidationError_def JobType_defs)

lemma Validate_request:
  "snd (Validate jr) =
     (if \<not> invalid_request jr \<and> reqType jr = ''http'' \<and> reqMethod jr = []
      then jr\<lparr>reqMethod := ''GET''\<rparr> else jr)"
  by (auto simp: Validate_def invalid_request_def known_type_def required_field_empty_def
      NewValidationError_def JobType_defs)

text \<open>
  Claim C8. \<open>Validate\<close> fails, with a validation error, exactly when the type is empty
  or not one of command, script, http, file, or when the field the type requires is
  empty; it succeeds otherwise. A valid http request with an empty method succeeds and
  has its method set to GET; in every other case the request is left as it was.
\<close>

theorem Validate_spec:
  "(case Validate jr of (err, jr') \<Rightarrow>
      ((\<exists>m. err = Some (ValidationError m)) \<longleftrightarrow> invalid_request jr) \<and>
      (err = None \<longleftrightarrow> \<not> invalid_request jr) \<and>
      (\<not> invalid_request jr \<and> reqType jr = ''http'' \<and> reqMethod jr = [] \<longrightarrow>
         err = None \<and> jr' = jr\<lparr>reqMethod := ''GET''\<rparr> \<and> reqMethod jr' = ''GET'') \<and>
      (\<not> (\<not> invalid_request jr \<and> reqType jr = ''http'' \<and> reqMethod jr = []) \<longrightarrow> jr' = jr))"
  using Validate_error_iff [of jr] Validate_ok_iff [of jr] Validate_request [of jr]
  by (cases "Validate jr") (simp split: if_splits)

theorem Validate_spec_witness:
  "Validate (zeroJobRequest\<lparr>reqType := ''http'', reqURL := ''https://example.com''\<rparr>) =
     (None, zeroJobRequest\<lparr>reqType := ''http'', reqURL := ''https://example.com'',
        reqMethod := ''GET''\<rparr>) \<and>
   \<not> invalid_request (zeroJobRequest\<lparr>reqType := ''http'', reqURL := ''https://example.com''\<rparr>) \<and>
   (\<exists>m. fst (Validate (zeroJobRequest\<lparr>reqType := ''http''\<rparr>)) = Some (ValidationError m)) \<and>
   invalid_request (zeroJobRequest\<lparr>reqType := ''http''\<rparr>)"
  using Validate_spec [of "zeroJobRequest\<lparr>reqType := ''http'', reqURL := ''https://example.com''\<rparr>"]
    Validate_spec [of "zeroJobRequest\<lparr>reqType := ''http''\<rparr>"]
  by (simp add: Validate_def zeroJobRequest_def invalid_request_def known_type_def
      required_field_empty_def NewValidationError_def JobType_defs)

lemma GenerateJobID_nonempty: "GenerateJobID ts rb \<noteq> []"
  by (simp add: GenerateJobID_def split: prod.splits)

lemma Validate_cases:
  "Validate jr = (e, jr') \<Longrightarrow>
     jr' = (if e = None \<and> reqType jr = ''http'' \<and> reqMethod jr = [] then jr\<lparr>reqMethod := ''GET''\<rparr> else jr)"
  unfolding Validate_def JobType_defs
  by (auto split: if_splits)

text \<open>Evaluation of the decimal form on numerals, one digit at a time.\<close>

lemma nat_decimal_numeral:
  "nat_decimal (numeral k) =
     (if (numeral k :: nat) < 10 then [digit_char (numeral k)]
      else nat_decimal (numeral k div 10) @ [digit_char (numeral k mod 10)])"
  by (rule nat_decimal.simps)

lemma nat_decimal_small:
  "nat_decimal 0 = [digit_char 0]"
  "nat_decimal 1 = [digit_char 1]"
  "nat_decimal (Suc 0) = [digit_char 1]"
  by (simp_all add: nat_decimal.simps)

text \<open>
  The identifier determines the clock reading and the random bytes it was built from:
  the decimal form is read back digit by digit, a byte is recovered from its two
  hexadecimal digits, and the eight hexadecimal digits are split off from the end.
\<close>

lemma below_10_cases:
  "d < (10::nat) \<Longrightarrow> d = 0 \<or> d = 1 \<or> d = 2 \<or> d = 3 \<or> d = 4 \<or> d = 5 \<or> d = 6 \<or> d = 7 \<or> d = 8 \<or> d = 9"
  by arith

lemma digit_char_code: "d < 10 \<Longrightarrow> (of_char (digit_char d) :: nat) = 48 + d"
  using below_10_cases [of d] by (auto simp add: digit_char_def)

lemma nat_decimal_value:
  "foldl (\<lambda>a c. 10 * a + (of_char c - 48)) 0 (nat_decimal n) = (n::nat)"
proof (induction n rule: nat_decimal.induct)
  case (1 n)
  show ?case
  proof (cases "n < 10")
    case True
    then show ?thesis by (simp add: nat_decimal.simps [of n] digit_char_code)
  next
    case False
    then show ?thesis using 1
      by (simp add: nat_decimal.simps [of n] digit_char_code)
  qed
qed

lemma nat_decimal_inj: "nat_decimal n = nat_decimal m \<Longrightarrow> n = m"
  by (metis nat_decimal_value)

lemma nat_decimal_hd:
  "nat_decimal n \<noteq> [] \<and> (48::nat) \<le> of_char (hd (nat_decimal n))"
proof (induction n rule: nat_decimal.induct)
  case (1 n)
  show ?case
  proof (cases "n < 10")
    case True
    then show ?thesis by (simp add: nat_decimal.simps [of n] digit_char_code)
  next
    case False
    then show ?thesis using 1
      by (simp add: nat_decimal.simps [of n])
  qed
qed

lemma nat_decimal_no_minus:
  "nat_decimal n \<noteq> CHR ''-'' # s" "CHR ''-'' # s \<noteq> nat_decimal n"
proof -
  show "nat_decimal n \<noteq> CHR ''-'' # s"
  proof
    assume "nat_decimal n = CHR ''-'' # s"
    then have "hd (nat_decimal n) = CHR ''-''" by simp
    then show False using nat_decimal_hd [of n] by simp
  qed
  then show "CHR ''-'' # s \<noteq> nat_decimal n" by (rule not_sym)
qed

lemma format_d_inj: "format_d i = format_d j \<Longrightarrow> i = j"
proof -
  assume eq: "format_d i = format_d j"
  consider "i < 0" "j < 0" | "i < 0" "\<not> j < 0" | "\<not> i < 0" "j < 0" | "\<not> i < 0" "\<not> j < 0"
    by blast
  then show "i = j"
  proof cases
    case 1
    then have "nat (- i) = nat (- j)" using eq by (simp add: format_d_def nat_decimal_inj)
    then show ?thesis using 1 by simp
  next
    case 2
    then show ?thesis using eq by (simp add: format_d_def nat_decimal_no_minus)
  next
    case 3
    then show ?thesis using eq by (simp add: format_d_def nat_decimal_no_minus)
  next
    case 4
    then have "nat i = nat j" using eq by (simp add: format_d_def nat_decimal_inj)
    then show ?thesis using 4 by simp
  qed
qed


lemma below_16_cases:
  "d < (16::nat) \<Longrightarrow> d = 0 \<or> d = 1 \<or> d = 2 \<or> d = 3 \<or> d = 4 \<or> d = 5 \<or> d = 6 \<or> d = 7 \<or>
     d = 8 \<or> d = 9 \<or> d = 10 \<or> d = 11 \<or> d = 12 \<or> d = 13 \<or> d = 14 \<or> d = 15"
  by arith

lemma hex_digit_code:
  "d < 16 \<Longrightarrow> (of_char (hex_digit d) :: nat) = (if d < 10 then 48 + d else 87 + d)"
  using below_16_cases [of d] by (auto simp add: hex_digit_def)

lemma hex_digit_inj:
  assumes "a < 16" "b < 16" "hex_digit a = hex_digit b"
  shows "a = b"
proof -
  have "(of_char (hex_digit a) :: nat) = of_char (hex_digit b)" using assms(3) by simp
  then show ?thesis using assms(1,2) by (simp add: hex_digit_code split: if_splits)
qed

lemma high_nibble_less: "unat (drop_bit 4 (b :: 8 word)) < 16"
proof -
  have "unat b < 2 ^ 8" using unsigned_less [of b] by simp
  then show ?thesis by (simp add: drop_bit_eq_div unat_div)
qed

lemma low_nibble_less: "unat (take_bit 4 (b :: 8 word)) < 16"
  using take_bit_nat_less_exp [of 4 "unat b"] by (simp add: unsigned_take_bit_eq)

lemma byte_hex_inj:
  fixes b c :: "8 word"
  assumes "hex_digit (unat (drop_bit 4 b)) = hex_digit (unat (drop_bit 4 c))"
    and "hex_digit (unat (take_bit 4 b)) = hex_digit (unat (take_bit 4 c))"
  shows "b = c"
proof -
  have "unat (drop_bit 4 b) = unat (drop_bit 4 c)"
    using assms(1) high_nibble_less by (rule_tac hex_digit_inj) auto
  then have hi: "drop_bit 4 b = drop_bit 4 c" by (rule unsigned_word_eqI)
  have "unat (take_bit 4 b) = unat (take_bit 4 c)"
    using assms(2) low_nibble_less by (rule_tac hex_digit_inj) auto
  then have lo: "take_bit 4 b = take_bit 4 c" by (rule unsigned_word_eqI)
  have "b = push_bit 4 (drop_bit 4 b) + take_bit 4 b" by (simp add: bits_ident)
  also have "\<dots> = push_bit 4 (drop_bit 4 c) + take_bit 4 c" by (simp only: hi lo)
  also have "\<dots> = c" by (simp add: bits_ident)
  finally show ?thesis .
qed

lemma GenerateJobID_inj:
  assumes "GenerateJobID ts rb = GenerateJobID ts' rb'"
  shows "ts = ts' \<and> rb = rb'"
proof -
  obtain b0 b1 b2 b3 where rb: "rb = (b0, b1, b2, b3)" by (cases rb) auto
  obtain c0 c1 c2 c3 where rb': "rb' = (c0, c1, c2, c3)" by (cases rb') auto
  let ?h = "EncodeToString [b0, b1, b2, b3]" and ?h' = "EncodeToString [c0, c1, c2, c3]"
  have len: "length (''-'' @ ?h) = length (''-'' @ ?h')" by (simp add: EncodeToString_def)
  have "format_d ts @ (''-'' @ ?h) = format_d ts' @ (''-'' @ ?h')"
    using assms by (simp add: GenerateJobID_def rb rb')
  then have "format_d ts = format_d ts' \<and> ''-'' @ ?h = ''-'' @ ?h'"
    using len by (metis append_eq_append_conv)
  then have ts: "ts = ts'" and h: "?h = ?h'" by (auto dest: format_d_inj)
  from h have "b0 = c0 \<and> b1 = c1 \<and> b2 = c2 \<and> b3 = c3"
    by (auto simp add: EncodeToString_def intro: byte_hex_inj)
  then show ?thesis using ts by (simp add: rb rb')
qed

lemma ToJob_ID:
  assumes "ToJob parse ts rb now jr = (Inr job, jr')"
  shows "ID job = GenerateJobID ts rb"
proof (cases "Validate jr")
  case (Pair e jr1)
  show ?thesis
  proof (cases e)
    case (Some err)
    then show ?thesis using Pair assms by (simp add: ToJob_def)
  next
    case None
    show ?thesis
    proof (cases "reqTimeout jr1 = []")
      case True
      then show ?thesis using Pair None assms
        by (auto simp add: ToJob_def Let_def split: if_splits)
    next
      case False
      show ?thesis
      proof (cases "parse (reqTimeout jr1)")
        case none: None
        then show ?thesis using False Pair None assms by (simp add: ToJob_def Let_def)
      next
        case (Some d)
        then show ?thesis using False Pair None assms
          by (auto simp add: ToJob_def Let_def split: if_splits)
      qed
    qed
  qed
qed

text \<open>
  Claim C4. When \<open>Validate\<close> fails, \<open>ToJob\<close> returns exactly that error. For a valid
  request whose timeout string is non-empty and does not parse, it returns a validation
  error. Otherwise it returns a job with status pending and a non-empty fresh identifier:
  the identifier is generated from the clock reading and the random bytes and determines
  both, so no conversion made at another clock reading or with other random bytes, of any
  request, yields the same identifier. Every payload field is copied from the validated
  request (the method being GET where validation filled it in), the timeout is the one
  the parser gave or five minutes when the string is empty, and the priority is the
  request's with 0 replaced by 1.
\<close>

theorem ToJob_spec:
  "(case Validate jr of
      (Some err, jr') \<Rightarrow> ToJob parse ts rb now jr = (Inl err, jr')
    | (None, jr') \<Rightarrow>
        (if reqTimeout jr \<noteq> [] \<and> parse (reqTimeout jr) = None
         then ToJob parse ts rb now jr =
                (Inl (ValidationError (''invalid timeout format: '' @ reqTimeout jr)), jr')
         else (\<exists>job. ToJob parse ts rb now jr = (Inr job, jr') \<and>
                 Status job = ''pending'' \<and> ID job \<noteq> [] \<and> ID job = GenerateJobID ts rb \<and>
                 (\<forall>ts2 rb2. GenerateJobID ts2 rb2 = ID job \<longrightarrow> ts2 = ts \<and> rb2 = rb) \<and>
                 (\<forall>parse2 ts2 rb2 now2 jr2 job2 jr2'.
                    ToJob parse2 ts2 rb2 now2 jr2 = (Inr job2, jr2') \<and> (ts2, rb2) \<noteq> (ts, rb)
                      \<longrightarrow> ID job2 \<noteq> ID job) \<and>
                 Type job = reqType jr \<and> Command job = reqCommand jr \<and>
                 Script job = reqScript jr \<and> URL job = reqURL jr \<and>
                 Method job = reqMethod jr' \<and>
                 reqMethod jr' = (if reqType jr = ''http'' \<and> reqMethod jr = [] then ''GET''
                                  else reqMethod jr) \<and>
                 FilePath job = reqFilePath jr \<and> Retries job = reqRetries jr \<and>
                 Tags job = reqTags jr \<and> Environment job = reqEnvironment jr \<and>
                 CreatedAt job = now \<and>
                 Some (Timeout job) =
                   (if reqTimeout jr = [] then Some (5 * 60 * 1000000000)
                    else parse (reqTimeout jr)) \<and>
                 Priority job = (if reqPriority jr = 0 then 1 else reqPriority jr))))"
proof (cases "Validate jr")
  case (Pair e jr')
  note keeps = Validate_cases [OF Pair]
  have fresh1: "\<forall>ts2 rb2. GenerateJobID ts2 rb2 = GenerateJobID ts rb \<longrightarrow> ts2 = ts \<and> rb2 = rb"
    using GenerateJobID_inj by blast
  have fresh2: "\<forall>parse2 ts2 rb2 now2 jr2 job2 jr2'.
      ToJob parse2 ts2 rb2 now2 jr2 = (Inr job2, jr2') \<and> (ts2, rb2) \<noteq> (ts, rb)
        \<longrightarrow> ID job2 \<noteq> GenerateJobID ts rb"
    using GenerateJobID_inj ToJob_ID by (metis prod.inject)
  show ?thesis
  proof (cases e)
    case (Some err)
    then show ?thesis using Pair by (simp add: ToJob_def)
  next
    case None
    show ?thesis
    proof (cases "reqTimeout jr \<noteq> [] \<and> parse (reqTimeout jr) = None")
      case True
      then show ?thesis using Pair None keeps
        by (simp add: ToJob_def Let_def NewValidationError_def)
    next
      case False
      show ?thesis
      proof (cases "reqTimeout jr = []")
        case True
        then show ?thesis using Pair None keeps GenerateJobID_nonempty [of ts rb] fresh1 fresh2
          by (simp add: ToJob_def Let_def Minute_def JobStatus_defs)
      next
        case nonempty: False
        with False obtain d where "parse (reqTimeout jr) = Some d" by auto
        then show ?thesis using nonempty Pair None keeps GenerateJobID_nonempty [of ts rb] fresh1 fresh2
          by (simp add: ToJob_def Let_def Minute_def JobStatus_defs)
      qed
    qed
  qed
qed

theorem ToJob_spec_witness:
  "ToJob (\<lambda>s. if s = ''5m'' then Some 300000000000 else None) 1700000000
       (0xab, 0x12, 0xcd, 0x34) (Time 42 0)
       (zeroJobRequest\<lparr>reqType := ''command'', reqCommand := ''echo hello'',
          reqTimeout := ''5m'', reqRetries := 3, reqPriority := 2\<rparr>) =
     (Inr (zeroJob\<lparr>ID := ''job-1700000000-ab12cd34'', Type := ''command'',
             Command := ''echo hello'', Timeout := 300000000000, Retries := 3,
             Priority := 2, Status := ''pending'', CreatedAt := Time 42 0\<rparr>),
      zeroJobRequest\<lparr>reqType := ''command'', reqCommand := ''echo hello'',
          reqTimeout := ''5m'', reqRetries := 3, reqPriority := 2\<rparr>) \<and>
   fst (ToJob (\<lambda>s. if s = ''5m'' then Some 300000000000 else None) 1700000000
       (0xab, 0x12, 0xcd, 0x34) (Time 42 0)
       (zeroJobRequest\<lparr>reqType := ''http'', reqURL := ''http://x'', reqTimeout := ''soon''\<rparr>)) =
     Inl (ValidationError ''invalid timeout format: soon'') \<and>
   fst (ToJob (\<lambda>s. if s = ''5m'' then Some 300000000000 else None) 1700000000
       (0xab, 0x12, 0xcd, 0x34) (Time 42 0) (zeroJobRequest\<lparr>reqType := ''http''\<rparr>)) =
     Inl (ValidationError ''url is required for HTTP jobs'') \<and>
   GenerateJobID 1700000001 (0xab, 0x12, 0xcd, 0x34) \<noteq> ''job-1700000000-ab12cd34'' \<and>
   GenerateJobID 1700000000 (0xab, 0x12, 0xcd, 0x35) \<noteq> ''job-1700000000-ab12cd34''"
  using ToJob_spec [where parse = "\<lambda>s. if s = ''5m'' then Some 300000000000 else None"
      and ts = 1700000000 and rb = "(0xab, 0x12, 0xcd, 0x34)" and now = "Time 42 0"
      and jr = "zeroJobRequest\<lparr>reqType := ''command'', reqCommand := ''echo hello'',
          reqTimeout := ''5m'', reqRetries := 3, reqPriority := 2\<rparr>"]
    ToJob_spec [where parse = "\<lambda>s. if s = ''5m'' then Some 300000000000 else None"
      and ts = 1700000000 and rb = "(0xab, 0x12, 0xcd, 0x34)" and now = "Time 42 0"
      and jr = "zeroJobRequest\<lparr>reqType := ''http'', reqURL := ''http://x'', reqTimeout := ''soon''\<rparr>"]
    ToJob_spec [where parse = "\<lambda>s. if s = ''5m'' then Some 300000000000 else None"
      and ts = 1700000000 and rb = "(0xab, 0x12, 0xcd, 0x34)" and now = "Time 42 0"
      and jr = "zeroJobRequest\<lparr>reqType := ''http''\<rparr>"]
  by (simp add: ToJob_def Validate_def zeroJobRequest_def zeroJob_def NewValidationError_def
      JobType_defs JobStatus_defs Minute_def Let_def
      GenerateJobID_def format_d_def nat_decimal_numeral nat_decimal_small digit_char_def
      EncodeToString_def hex_digit_def)

section \<open>Properties of the store\<close>

lemma matchesFilters_conj:
  "matchesFilters j filters \<longleftrightarrow> (\<forall>f \<in> set filters. matchesFilter j f)"
  by (induction filters) auto

lemma List_loop_filter:
  "List_loop m filters ks result =
     result @ filter (\<lambda>j. matchesFilters j filters) (List.map_filter m ks)"
proof (induction ks arbitrary: result)
  case Nil
  show ?case by (simp add: List.map_filter_simps)
next
  case (Cons k ks)
  show ?case
    by (cases "m k") (simp_all add: Cons.IH List.map_filter_simps Let_def)
qed

lemma map_filter_dom:
  "set ks \<subseteq> dom m \<Longrightarrow> List.map_filter m ks = map (\<lambda>k. the (m k)) ks"
  by (induction ks) (auto simp: List.map_filter_simps)

lemma List_visits:
  assumes "set order = dom (jobs s)"
  shows "List order s filters =
           filter (\<lambda>j. matchesFilters j filters) (map (\<lambda>k. the (jobs s k)) order)"
  using assms by (simp add: List_def List_loop_filter map_filter_dom)

lemma set_List:
  assumes "set order = dom (jobs s)"
  shows "set (List order s filters) =
           {j. (\<exists>k. jobs s k = Some j) \<and> (\<forall>f \<in> set filters. matchesFilter j f)}"
proof -
  have "(\<lambda>k. the (jobs s k)) ` dom (jobs s) = {j. \<exists>k. jobs s k = Some j}"
    by (force simp: image_iff dom_def)
  then show ?thesis
    using assms by (auto simp: List_visits matchesFilters_conj)
qed

lemma UpdateStatus_error_kind:
  "fst (UpdateStatus now j status) = Some e \<Longrightarrow> IsValidationError e"
  by (auto simp: UpdateStatus_def NewValidationError_def Let_def split: if_splits)

lemma Store_UpdateStatus_not_found:
  "(\<exists>e. fst (MemoryStore_UpdateStatus now s jobID status) = Some e \<and> IsJobNotFoundError e)
     \<longleftrightarrow> jobs s jobID = None"
proof (cases "jobs s jobID")
  case None
  then show ?thesis
    by (simp add: MemoryStore_UpdateStatus_def NewJobNotFoundError_def)
next
  case (Some j)
  obtain err j' where u: "UpdateStatus now j status = (err, j')"
    by (cases "UpdateStatus now j status")
  have "fst (MemoryStore_UpdateStatus now s jobID status) = err"
    using Some u by (cases err) (simp_all add: MemoryStore_UpdateStatus_def)
  moreover have "\<And>e. err = Some e \<Longrightarrow> \<not> IsJobNotFoundError e"
    using UpdateStatus_error_kind [of now j status] u by (case_tac e) auto
  ultimately show ?thesis using Some by auto
qed

text \<open>
Claim C6. In every store: \<open>Create\<close> fails with a validation error and leaves the
  store unchanged when a job with the same identifier is present, and otherwise succeeds
  and stores the job; \<open>Get\<close>, \<open>Update\<close> and \<open>Delete\<close> fail exactly when no job with
  the identifier is present, and then with the not-found error; the store's
  \<open>UpdateStatus\<close> returns a not-found error exactly when no job with the identifier is
  present; \<open>List\<close>, whatever the order in which the map is visited, returns the stored
  jobs that satisfy every supplied filter, each stored job once, and every stored job
  when no filter is supplied.
\<close>

theorem MemoryStore_contract:
  "(jobs s (ID j) \<noteq> None \<longrightarrow> (\<exists>m. Create s j = (Some (ValidationError m), s))) \<and>
   (jobs s (ID j) = None \<longrightarrow> Create s j = (None, s\<lparr>jobs := (jobs s)(ID j \<mapsto> j)\<rparr>)) \<and>
   ((\<exists>e. Get s jobID = Inl e) \<longleftrightarrow> jobs s jobID = None) \<and>
   (jobs s jobID = None \<longrightarrow> Get s jobID = Inl (JobNotFoundError jobID)) \<and>
   (\<forall>j'. jobs s jobID = Some j' \<longrightarrow> Get s jobID = Inr j') \<and>
   (fst (Update s j) \<noteq> None \<longleftrightarrow> jobs s (ID j) = None) \<and>
   (jobs s (ID j) = None \<longrightarrow> Update s j = (Some (JobNotFoundError (ID j)), s)) \<and>
   (jobs s (ID j) \<noteq> None \<longrightarrow> Update s j = (None, s\<lparr>jobs := (jobs s)(ID j \<mapsto> j)\<rparr>)) \<and>
   (fst (Delete s jobID) \<noteq> None \<longleftrightarrow> jobs s jobID = None) \<and>
   (jobs s jobID = None \<longrightarrow> Delete s jobID = (Some (JobNotFoundError jobID), s)) \<and>
   (jobs s jobID \<noteq> None \<longrightarrow> Delete s jobID = (None, s\<lparr>jobs := (jobs s)(jobID := None)\<rparr>)) \<and>
   ((\<exists>e. fst (MemoryStore_UpdateStatus now s jobID status) = Some e \<and> IsJobNotFoundError e)
       \<longleftrightarrow> jobs s jobID = None) \<and>
   (jobs s jobID = None \<longrightarrow>
      MemoryStore_UpdateStatus now s jobID status = (Some (JobNotFoundError jobID), s)) \<and>
   (set order = dom (jobs s) \<longrightarrow>
      List order s filters =
        filter (\<lambda>j'. \<forall>f \<in> set filters. matchesFilter j' f) (map (\<lambda>k. the (jobs s k)) order) \<and>
      set (List order s filters) =
        {j'. (\<exists>k. jobs s k = Some j') \<and> (\<forall>f \<in> set filters. matchesFilter j' f)} \<and>
      List order s [] = map (\<lambda>k. the (jobs s k)) order \<and>
      set (List order s []) = ran (jobs s))"
proof -
  have create: "(jobs s (ID j) \<noteq> None \<longrightarrow> (\<exists>m. Create s j = (Some (ValidationError m), s))) \<and>
      (jobs s (ID j) = None \<longrightarrow> Create s j = (None, s\<lparr>jobs := (jobs s)(ID j \<mapsto> j)\<rparr>))"
    by (simp add: Create_def NewValidationError_def Let_def)
  have get: "((\<exists>e. Get s jobID = Inl e) \<longleftrightarrow> jobs s jobID = None) \<and>
      (jobs s jobID = None \<longrightarrow> Get s jobID = Inl (JobNotFoundError jobID)) \<and>
      (\<forall>j'. jobs s jobID = Some j' \<longrightarrow> Get s jobID = Inr j')"
    by (cases "jobs s jobID") (simp_all add: Get_def NewJobNotFoundError_def Let_def)
  have update: "(fst (Update s j) \<noteq> None \<longleftrightarrow> jobs s (ID j) = None) \<and>
      (jobs s (ID j) = None \<longrightarrow> Update s j = (Some (JobNotFoundError (ID j)), s)) \<and>
      (jobs s (ID j) \<noteq> None \<longrightarrow> Update s j = (None, s\<lparr>jobs := (jobs s)(ID j \<mapsto> j)\<rparr>))"
    by (simp add: Update_def NewJobNotFoundError_def Let_def)
  have delete: "(fst (Delete s jobID) \<noteq> None \<longleftrightarrow> jobs s jobID = None) \<and>
      (jobs s jobID = None \<longrightarrow> Delete s jobID = (Some (JobNotFoundError jobID), s)) \<and>
      (jobs s jobID \<noteq> None \<longrightarrow> Delete s jobID = (None, s\<lparr>jobs := (jobs s)(jobID := None)\<rparr>))"
    by (simp add: Delete_def NewJobNotFoundError_def)
  have upd_status: "jobs s jobID = None \<longrightarrow>
      MemoryStore_UpdateStatus now s jobID status = (Some (JobNotFoundError jobID), s)"
    by (simp add: MemoryStore_UpdateStatus_def NewJobNotFoundError_def)
  have list: "set order = dom (jobs s) \<longrightarrow>
      List order s filters =
        filter (\<lambda>j'. \<forall>f \<in> set filters. matchesFilter j' f) (map (\<lambda>k. the (jobs s k)) order) \<and>
      set (List order s filters) =
        {j'. (\<exists>k. jobs s k = Some j') \<and> (\<forall>f \<in> set filters. matchesFilter j' f)} \<and>
      List order s [] = map (\<lambda>k. the (jobs s k)) order \<and>
      set (List order s []) = ran (jobs s)"
  proof
    assume o: "set order = dom (jobs s)"
    have "set (List order s []) = ran (jobs s)"
      using set_List [OF o, of "[]"] by (auto simp: ran_def)
    then show "List order s filters =
        filter (\<lambda>j'. \<forall>f \<in> set filters. matchesFilter j' f) (map (\<lambda>k. the (jobs s k)) order) \<and>
      set (List order s filters) =
        {j'. (\<exists>k. jobs s k = Some j') \<and> (\<forall>f \<in> set filters. matchesFilter j' f)} \<and>
      List order s [] = map (\<lambda>k. the (jobs s k)) order \<and>
      set (List order s []) = ran (jobs s)"
      using List_visits [OF o, of filters] List_visits [OF o, of "[]"] set_List [OF o, of filters]
      by (simp add: matchesFilters_conj)
  qed
  show ?thesis
    using create get update delete Store_UpdateStatus_not_found [of now s jobID status]
      upd_status list
    by blast
qed


theorem MemoryStore_contract_witness:
  "Create \<lparr>jobs = [''a'' \<mapsto> zeroJob\<lparr>ID := ''a'', Status := ''pending''\<rparr>]\<rparr>
       (zeroJob\<lparr>ID := ''a'', Status := ''pending''\<rparr>) =
     (Some (ValidationError ''job already exists: a''),
      \<lparr>jobs = [''a'' \<mapsto> zeroJob\<lparr>ID := ''a'', Status := ''pending''\<rparr>]\<rparr>) \<and>
   Get \<lparr>jobs = [''a'' \<mapsto> zeroJob\<lparr>ID := ''a'', Status := ''pending''\<rparr>]\<rparr> ''a'' =
     Inr (zeroJob\<lparr>ID := ''a'', Status := ''pending''\<rparr>) \<and>
   Get \<lparr>jobs = [''a'' \<mapsto> zeroJob\<lparr>ID := ''a'', Status := ''pending''\<rparr>]\<rparr> ''b'' =
     Inl (JobNotFoundError ''b'') \<and>
   Delete \<lparr>jobs = [''a'' \<mapsto> zeroJob\<lparr>ID := ''a'', Status := ''pending''\<rparr>]\<rparr> ''b'' =
     (Some (JobNotFoundError ''b''),
      \<lparr>jobs = [''a'' \<mapsto> zeroJob\<lparr>ID := ''a'', Status := ''pending''\<rparr>]\<rparr>) \<and>
   fst (MemoryStore_UpdateStatus (Time 3 0)
      \<lparr>jobs = [''a'' \<mapsto> zeroJob\<lparr>ID := ''a'', Status := ''pending''\<rparr>]\<rparr> ''b'' ''queued'') =
     Some (JobNotFoundError ''b'') \<and>
   set [''a''] = dom [''a'' \<mapsto> zeroJob\<lparr>ID := ''a'', Status := ''pending''\<rparr>] \<and>
   List [''a''] \<lparr>jobs = [''a'' \<mapsto> zeroJob\<lparr>ID := ''a'', Status := ''pending''\<rparr>]\<rparr>
       [\<lparr>Field = ''status'', Operator = ''eq'', Value = VString ''pending''\<rparr>] =
     [zeroJob\<lparr>ID := ''a'', Status := ''pending''\<rparr>] \<and>
   List [''a''] \<lparr>jobs = [''a'' \<mapsto> zeroJob\<lparr>ID := ''a'', Status := ''pending''\<rparr>]\<rparr>
       [\<lparr>Field = ''status'', Operator = ''eq'', Value = VString ''running''\<rparr>] = [] \<and>
   List [''a''] \<lparr>jobs = [''a'' \<mapsto> zeroJob\<lparr>ID := ''a'', Status := ''pending''\<rparr>]\<rparr> [] =
     [zeroJob\<lparr>ID := ''a'', Status := ''pending''\<rparr>]"
  using MemoryStore_contract [where s = "\<lparr>jobs = [''a'' \<mapsto> zeroJob\<lparr>ID := ''a'', Status := ''pending''\<rparr>]\<rparr>"
      and j = "zeroJob\<lparr>ID := ''a'', Status := ''pending''\<rparr>" and jobID = "''a''"
      and now = "Time 3 0" and status = "''queued''" and order = "[''a'']"
      and filters = "[\<lparr>Field = ''status'', Operator = ''eq'', Value = VString ''pending''\<rparr>]"]
    MemoryStore_contract [where s = "\<lparr>jobs = [''a'' \<mapsto> zeroJob\<lparr>ID := ''a'', Status := ''pending''\<rparr>]\<rparr>"
      and j = "zeroJob\<lparr>ID := ''a'', Status := ''pending''\<rparr>" and jobID = "''b''"
      and now = "Time 3 0" and status = "''queued''" and order = "[''a'']"
      and filters = "[\<lparr>Field = ''status'', Operator = ''eq'', Value = VString ''running''\<rparr>]"]
  by (simp add: zeroJob_def Create_def NewValidationError_def matchesFilter_def fieldValue_def)

section \<open>Properties of the filters\<close>

subsection \<open>The operator contains\<close>

lemma of_char_toLowerCase:
  "(of_char (toLowerCase b) :: nat) =
     (if 65 \<le> (of_char b :: nat) \<and> (of_char b :: nat) \<le> 90 then of_char b + 32 else of_char b)"
  by (simp add: toLowerCase_def)

lemma toLowerCase_same_letter:
  "toLowerCase a = toLowerCase b \<longleftrightarrow> same_letter a b"
proof -
  have "toLowerCase a = toLowerCase b \<longleftrightarrow>
        (of_char (toLowerCase a) :: nat) = of_char (toLowerCase b)"
    by simp
  also have "\<dots> \<longleftrightarrow> same_letter a b"
    unfolding of_char_toLowerCase same_letter_def ascii_upper_def
    using of_char_eq_iff [of a b, where ?'a = nat]
    by (auto simp del: of_char_eq_iff)
  finally show ?thesis .
qed

lemma match_from_iff:
  "match_from str substr i j \<longleftrightarrow>
     (\<forall>k. j \<le> k \<and> k < length substr \<longrightarrow> same_letter (str ! (i + k)) (substr ! k))"
proof (induction str substr i j rule: match_from.induct)
  case (1 str substr i j)
  show ?case
  proof (cases "j < length substr")
    case False
    then show ?thesis by (auto simp: match_from.simps [of str substr i j])
  next
    case True
    show ?thesis
    proof (cases "toLowerCase (str ! (i + j)) = toLowerCase (substr ! j)")
      case False
      then have "\<not> match_from str substr i j"
        using True by (simp add: match_from.simps [of str substr i j])
      moreover have "\<not> same_letter (str ! (i + j)) (substr ! j)"
        using False by (simp add: toLowerCase_same_letter)
      ultimately show ?thesis using True by auto
    next
      case eq: True
      then have "match_from str substr i j = match_from str substr i (j + 1)"
        using True by (simp add: match_from.simps [of str substr i j])
      also have "\<dots> \<longleftrightarrow>
          (\<forall>k. j + 1 \<le> k \<and> k < length substr \<longrightarrow> same_letter (str ! (i + k)) (substr ! k))"
        using "1.IH" True eq by simp
      also have "\<dots> \<longleftrightarrow>
          (\<forall>k. j \<le> k \<and> k < length substr \<longrightarrow> same_letter (str ! (i + k)) (substr ! k))"
      proof -
        have here: "same_letter (str ! (i + j)) (substr ! j)"
          using eq by (simp add: toLowerCase_same_letter)
        have "\<And>k. j \<le> k \<Longrightarrow> k = j \<or> j + 1 \<le> k" by arith
        then show ?thesis using here by (metis Suc_eq_plus1 Suc_leD)
      qed
      finally show ?thesis .
    qed
  qed
qed

lemma findSubstring_from_iff:
  "findSubstring_from str substr i \<longleftrightarrow> (\<exists>i' \<ge> i. match_at str substr i')"
proof (induction str substr i rule: findSubstring_from.induct)
  case (1 str substr i)
  show ?case
  proof (cases "int i \<le> int (length str) - int (length substr)")
    case False
    then have "\<not> findSubstring_from str substr i"
      by (simp add: findSubstring_from.simps [of str substr i])
    moreover have "\<not> (\<exists>i' \<ge> i. match_at str substr i')"
      using False by (auto simp: match_at_def)
    ultimately show ?thesis by simp
  next
    case True
    then have bound: "i + length substr \<le> length str" by arith
    show ?thesis
    proof (cases "match_from str substr i 0")
      case m: True
      then have "findSubstring_from str substr i"
        using True by (simp add: findSubstring_from.simps [of str substr i])
      moreover have "match_at str substr i"
        using m bound by (simp add: match_at_def match_from_iff)
      ultimately show ?thesis by auto
    next
      case m: False
      then have "findSubstring_from str substr i = findSubstring_from str substr (i + 1)"
        using True by (simp add: findSubstring_from.simps [of str substr i])
      also have "\<dots> \<longleftrightarrow> (\<exists>i' \<ge> i + 1. match_at str substr i')"
        using "1.IH" True m by simp
      also have "\<dots> \<longleftrightarrow> (\<exists>i' \<ge> i. match_at str substr i')"
      proof -
        have "\<not> match_at str substr i"
          using m by (simp add: match_at_def match_from_iff)
        then show ?thesis
          by (metis Suc_eq_plus1 Suc_leD Suc_leI le_neq_implies_less)
      qed
      finally show ?thesis .
    qed
  qed
qed

lemma occurs_ci_match_at:
  "occurs_ci substr str \<longleftrightarrow> (\<exists>i. match_at str substr i)"
proof
  assume "occurs_ci substr str"
  then obtain pre mid post where s: "str = pre @ mid @ post"
    and m: "list_all2 same_letter mid substr"
    by (auto simp: occurs_ci_def)
  from m have len: "length mid = length substr" by (rule list_all2_lengthD)
  have "match_at str substr (length pre)"
    unfolding match_at_def
  proof (intro conjI allI impI)
    show "length pre + length substr \<le> length str" using s len by simp
  next
    fix k assume k: "k < length substr"
    then have "str ! (length pre + k) = mid ! k"
      using s len by (simp add: nth_append)
    then show "same_letter (str ! (length pre + k)) (substr ! k)"
      using m k len by (simp add: list_all2_nthD)
  qed
  then show "\<exists>i. match_at str substr i" ..
next
  assume "\<exists>i. match_at str substr i"
  then obtain i where b: "i + length substr \<le> length str"
    and m: "\<forall>k < length substr. same_letter (str ! (i + k)) (substr ! k)"
    by (auto simp: match_at_def)
  define pre where "pre = take i str"
  define mid where "mid = take (length substr) (drop i str)"
  define post where "post = drop (length substr) (drop i str)"
  have "drop i str = mid @ post"
    unfolding mid_def post_def by (rule append_take_drop_id [symmetric])
  moreover have "str = pre @ drop i str"
    unfolding pre_def by (rule append_take_drop_id [symmetric])
  ultimately have "str = pre @ mid @ post" by simp
  moreover have "list_all2 same_letter mid substr"
    using b m by (auto simp: mid_def list_all2_conv_all_nth)
  ultimately show "occurs_ci substr str"
    unfolding occurs_ci_def by blast
qed

lemma same_letter_refl: "same_letter a a"
  by (simp add: same_letter_def)

lemma findSubstring_occurs: "findSubstring str substr \<longleftrightarrow> occurs_ci substr str"
  by (simp add: findSubstring_def findSubstring_from_iff occurs_ci_match_at)

lemma occurs_ci_length: "occurs_ci substr str \<Longrightarrow> length substr \<le> length str"
  by (auto simp: occurs_ci_match_at match_at_def)

lemma occurs_ci_self: "occurs_ci s s"
  unfolding occurs_ci_def
  by (rule exI [of _ "[]"], rule exI [of _ s], rule exI [of _ "[]"])
     (simp add: list_all2_refl same_letter_refl)

lemma contains_iff:
  "contains str substr \<longleftrightarrow> (if substr = [] then str = [] else occurs_ci substr str)"
  using occurs_ci_length [of substr str] occurs_ci_self [of substr]
  by (auto simp: contains_def findSubstring_occurs)

lemma occurs_job17:
  "occurs_ci ''job-17'' ''job-1700000000-ab12cd34''"
  unfolding occurs_ci_def
  by (rule exI [of _ "[]"], rule exI [of _ "''job-17''"], rule exI [of _ "''00000000-ab12cd34''"])
     (simp add: same_letter_refl)

lemma not_occurs_job17:
  "\<not> occurs_ci ''job-17'' ''job-5-ab12cd34''"
proof
  assume "occurs_ci ''job-17'' ''job-5-ab12cd34''"
  then obtain i where m: "match_at ''job-5-ab12cd34'' ''job-17'' i"
    by (auto simp: occurs_ci_match_at)
  then have bound: "i \<le> 8" by (simp add: match_at_def)
  from m have all: "\<forall>k < 6. same_letter (''job-5-ab12cd34'' ! (i + k)) (''job-17'' ! k)"
    by (simp add: match_at_def)
  from all have first: "same_letter (''job-5-ab12cd34'' ! i) CHR ''j''"
    by (drule_tac x = 0 in spec) simp
  from all have fifth: "same_letter (''job-5-ab12cd34'' ! (i + 4)) CHR ''1''"
    by (drule_tac x = 4 in spec) simp
  from bound have "i = 0 \<or> i = 1 \<or> i = 2 \<or> i = 3 \<or> i = 4 \<or> i = 5 \<or> i = 6 \<or> i = 7 \<or> i = 8"
    by arith
  then show False using first fifth
    by (auto simp: same_letter_def ascii_upper_def)
qed

text \<open>
  Read as plain substring search, the operator would match every string field on the
  empty search string, which occurs in every string. The guard
  \<^verbatim>\<open>len(substr) > 0\<close> of \<open>contains\<close> decides otherwise: the empty search string
  matches the empty field only.
\<close>

theorem contains_filter_counterexample:
  "\<not> (matchesFilter (zeroJob\<lparr>ID := ''job-5-ab12cd34''\<rparr>)
          \<lparr>Field = ''id'', Operator = ''contains'', Value = VString []\<rparr>
        \<longleftrightarrow> occurs_ci [] ''job-5-ab12cd34'')"
proof -
  have "occurs_ci [] ''job-5-ab12cd34''"
    unfolding occurs_ci_def
    by (rule exI [of _ "[]"], rule exI [of _ "[]"], rule exI [of _ "''job-5-ab12cd34''"]) simp
  moreover have "\<not> matchesFilter (zeroJob\<lparr>ID := ''job-5-ab12cd34''\<rparr>)
          \<lparr>Field = ''id'', Operator = ''contains'', Value = VString []\<rparr>"
    by (simp add: matchesFilter_def fieldValue_def zeroJob_def contains_def)
  ultimately show ?thesis by simp
qed

text \<open>
  Claim C9, as amended. A filter with operator \<open>contains\<close> matches exactly when the field
  it names holds a string, the filter's value is a string, and either the filter's string
  is non-empty and occurs in the field's string case-insensitively, or both strings are
  empty; so it is false when either operand is not a string. On the field \<open>id\<close> the value
  \<open>job-17\<close> matches the identifier \<open>job-1700000000-ab12cd34\<close> and does not match
  \<open>job-5-ab12cd34\<close>.
\<close>

theorem contains_filter_spec:
  "(matchesFilter j \<lparr>Field = field, Operator = ''contains'', Value = v\<rparr> \<longleftrightarrow>
      (\<exists>str substr. fieldValue j field = Some (VString str) \<and> v = VString substr \<and>
         (if substr = [] then str = [] else occurs_ci substr str))) \<and>
   matchesFilter (zeroJob\<lparr>ID := ''job-1700000000-ab12cd34''\<rparr>)
     \<lparr>Field = ''id'', Operator = ''contains'', Value = VString ''job-17''\<rparr> \<and>
   \<not> matchesFilter (zeroJob\<lparr>ID := ''job-5-ab12cd34''\<rparr>)
     \<lparr>Field = ''id'', Operator = ''contains'', Value = VString ''job-17''\<rparr>"
proof (intro conjI)
  show "matchesFilter j \<lparr>Field = field, Operator = ''contains'', Value = v\<rparr> \<longleftrightarrow>
      (\<exists>str substr. fieldValue j field = Some (VString str) \<and> v = VString substr \<and>
         (if substr = [] then str = [] else occurs_ci substr str))"
    by (auto simp add: matchesFilter_def contains_iff split: option.splits val.splits)
  show "matchesFilter (zeroJob\<lparr>ID := ''job-1700000000-ab12cd34''\<rparr>)
     \<lparr>Field = ''id'', Operator = ''contains'', Value = VString ''job-17''\<rparr>"
    using occurs_job17 by (simp add: matchesFilter_def fieldValue_def contains_iff)
  show "\<not> matchesFilter (zeroJob\<lparr>ID := ''job-5-ab12cd34''\<rparr>)
     \<lparr>Field = ''id'', Operator = ''contains'', Value = VString ''job-17''\<rparr>"
    using not_occurs_job17 by (simp add: matchesFilter_def fieldValue_def contains_iff)
qed

subsection \<open>The ordering operators\<close>

text \<open>
  Claim C3 at operands that are not comparably typed. \<open>compareValues\<close> falls through to
  \<^verbatim>\<open>return 0\<close> when the two dynamic types differ or are not int, string or time, and
  0 is also its answer for equal operands. So on an int priority and a string value, and
  on the \<^verbatim>\<open>nil\<close> of an unset \<open>started_at\<close> and a time, the operators \<open>gte\<close> and
  \<open>lte\<close> match, whereas \<open>gt\<close>, \<open>lt\<close> and \<open>eq\<close> on the same operands do not.
\<close>

theorem ordering_incomparable_operands:
  "matchesFilter (zeroJob\<lparr>Priority := 5\<rparr>)
     \<lparr>Field = ''priority'', Operator = ''gte'', Value = VString ''5''\<rparr> \<and>
   matchesFilter (zeroJob\<lparr>Priority := 5\<rparr>)
     \<lparr>Field = ''priority'', Operator = ''lte'', Value = VString ''5''\<rparr> \<and>
   \<not> matchesFilter (zeroJob\<lparr>Priority := 5\<rparr>)
     \<lparr>Field = ''priority'', Operator = ''gt'', Value = VString ''5''\<rparr> \<and>
   \<not> matchesFilter (zeroJob\<lparr>Priority := 5\<rparr>)
     \<lparr>Field = ''priority'', Operator = ''lt'', Value = VString ''5''\<rparr> \<and>
   \<not> matchesFilter (zeroJob\<lparr>Priority := 5\<rparr>)
     \<lparr>Field = ''priority'', Operator = ''eq'', Value = VString ''5''\<rparr> \<and>
   matchesFilter zeroJob
     \<lparr>Field = ''started_at'', Operator = ''gte'', Value = VTime (Time 10 0)\<rparr>"
  by (simp add: matchesFilter_def fieldValue_def zeroJob_def)

end
